theory Spec2Isabelle
  imports Complex_Main
begin

section \<open>Solar savings calculator: tariff, allocation, simulation and report\<close>

text \<open>
  A shallow embedding of the computational core of \<^verbatim>\<open>src/src/solar.jsx\<close>
  (the same code is in \<^verbatim>\<open>src/unnamed/part_001\<close>). A JavaScript number is modelled
  as a \<^typ>\<open>real\<close> and its arithmetic as exact, with two exceptions. The projected
  monthly usage is computed as the code computes it, in doubles, because
  \<^verbatim>\<open>Math.round\<close> makes the rounding of the product visible. The one division whose
  divisor is not a non-zero constant (the battery fill indicator) has an explicit
  non-finite outcome.
\<close>

subsection \<open>Constants\<close>

text \<open>The width of a tariff tier is a number or \<^verbatim>\<open>Infinity\<close>.\<close>

datatype bound = Kwh real | Infinity

record tier =
  limit :: bound
  rate :: real

definition TARIFF_TIERS :: "tier list" where
  "TARIFF_TIERS =
     [\<lparr>limit = Kwh 200, rate = 0.218\<rparr>,
      \<lparr>limit = Kwh 100, rate = 0.334\<rparr>,
      \<lparr>limit = Kwh 300, rate = 0.516\<rparr>,
      \<lparr>limit = Kwh 300, rate = 0.546\<rparr>,
      \<lparr>limit = Infinity, rate = 0.571\<rparr>]"

definition NEM_EXPORT_RATE :: real where "NEM_EXPORT_RATE = 0.24"
definition AVG_GRID_RATE :: real where "AVG_GRID_RATE = 0.45"
definition SOLAR_YIELD_PER_KW :: real where "SOLAR_YIELD_PER_KW = 3.5"
definition TNB_RATE_PER_KWH :: real where "TNB_RATE_PER_KWH = 0.5"
definition EXPORT_RATE_FACTOR :: real where "EXPORT_RATE_FACTOR = 0.7"
definition BATTERY_EXPORT_FACTOR :: real where "BATTERY_EXPORT_FACTOR = 0.3"
definition BATTERY_UNIT_KWH :: real where "BATTERY_UNIT_KWH = 10"

subsection \<open>Library functions of the language\<close>

text \<open>\<^verbatim>\<open>Math.min(remaining, tier.limit)\<close>, where the limit may be \<^verbatim>\<open>Infinity\<close>.\<close>

fun Math_min_bound :: "real \<Rightarrow> bound \<Rightarrow> real" where
  "Math_min_bound x (Kwh l) = min x l"
| "Math_min_bound x Infinity = x"

text \<open>\<^verbatim>\<open>Math.round\<close>: the nearest integer, a tie going up.\<close>

definition Math_round :: "real \<Rightarrow> real" where
  "Math_round x = of_int \<lfloor>x + 1 / 2\<rfloor>"

text \<open>
  A division whose divisor may be zero: in the language the quotient is then
  \<^verbatim>\<open>Infinity\<close>, \<^verbatim>\<open>-Infinity\<close> or \<^verbatim>\<open>NaN\<close>, here \<open>None\<close>.
\<close>

definition js_div :: "real \<Rightarrow> real \<Rightarrow> real option" where
  "js_div a b = (if b = 0 then None else Some (a / b))"

text \<open>
  Rounding to the nearest double. \<open>rne\<close> rounds to the nearest integer, a tie going
  to the even one; \<open>fl64_pos\<close> scales a positive number into the range of the 53-bit
  significands, rounds it there and scales it back; \<open>fl64\<close> adds the sign. The
  exponent is not bounded: overflow to \<^verbatim>\<open>Infinity\<close> and subnormal numbers are not
  modelled.
\<close>

definition rne :: "real \<Rightarrow> int" where
  "rne y =
     (let f = \<lfloor>y\<rfloor>; d = y - of_int f
      in if d < 1 / 2 then f else if 1 / 2 < d then f + 1
         else if even f then f else f + 1)"

function fl64_pos :: "real \<Rightarrow> real" where
  "fl64_pos x =
     (if x \<le> 0 then 0
      else if 2 ^ 53 \<le> x then 2 * fl64_pos (x / 2)
      else if x < 2 ^ 52 then fl64_pos (2 * x) / 2
      else of_int (rne x))"
  by pat_completeness auto
termination
proof (relation "measure (\<lambda>x. if 2 ^ 53 \<le> x then nat \<lceil>x\<rceil> else nat \<lceil>2 ^ 104 / x\<rceil>)")
  show "wf (measure (\<lambda>x::real. if 2 ^ 53 \<le> x then nat \<lceil>x\<rceil> else nat \<lceil>2 ^ 104 / x\<rceil>))"
    by simp
next
  fix x :: real
  assume "\<not> x \<le> 0" and big: "2 ^ 53 \<le> x"
  show "(x / 2, x) \<in> measure (\<lambda>x. if 2 ^ 53 \<le> x then nat \<lceil>x\<rceil> else nat \<lceil>2 ^ 104 / x\<rceil>)"
  proof (cases "(2::real) ^ 53 \<le> x / 2")
    case True
    have "\<lceil>x / 2\<rceil> < \<lceil>x\<rceil>" using big by (simp add: ceiling_less_iff) linarith
    moreover have "0 < \<lceil>x\<rceil>" using big by (simp add: less_ceiling_iff) 
    ultimately show ?thesis using True big by simp
  next
    case False
    have "2 ^ 52 \<le> x / 2" using big by simp
    then have "2 ^ 104 / (x / 2) \<le> 2 ^ 104 / (2 ^ 52 :: real)"
      by (intro divide_left_mono) simp_all
    then have "2 ^ 104 / (x / 2) \<le> (2 ^ 52 :: real)" by simp
    then have "\<lceil>2 ^ 104 / (x / 2)\<rceil> \<le> (2 ^ 52 :: int)"
      by (simp add: ceiling_le_iff)
    also have "\<dots> < 2 ^ 53" by simp
    also have "\<dots> \<le> \<lceil>x\<rceil>"
      using big by (simp add: le_ceiling_iff)
    finally have lt: "\<lceil>2 ^ 104 / (x / 2)\<rceil> < \<lceil>x\<rceil>" .
    have "0 < \<lceil>x\<rceil>" using big by (simp add: less_ceiling_iff)
    with lt have "nat \<lceil>2 ^ 104 / (x / 2)\<rceil> < nat \<lceil>x\<rceil>"
      by (simp only: zless_nat_conj)
    then show ?thesis using False big by simp
  qed
next
  fix x :: real
  assume pos: "\<not> x \<le> 0" and "\<not> 2 ^ 53 \<le> x" and small: "x < 2 ^ 52"
  have nb: "\<not> (2::real) ^ 53 \<le> 2 * x" using small by simp
  define y where "y = 2 ^ 104 / x"
  have "2 ^ 104 / (2 ^ 52 :: real) \<le> 2 ^ 104 / x"
    using pos small by (intro divide_left_mono) simp_all
  then have y: "(2 ^ 52 :: real) \<le> y" by (simp add: y_def)
  have "(2::real) \<le> 2 ^ 52" by simp
  then have y2: "2 \<le> y" using y by (rule order_trans)
  have "y / 2 \<le> of_int \<lceil>y\<rceil> - 1"
    using y2 le_of_int_ceiling [of y] by linarith
  then have "y / 2 \<le> of_int (\<lceil>y\<rceil> - 1)"
    by simp
  then have "\<lceil>y / 2\<rceil> \<le> \<lceil>y\<rceil> - 1"
    by (rule ceiling_le)
  then have half: "\<lceil>y / 2\<rceil> < \<lceil>y\<rceil>"
    by linarith
  have e: "2 ^ 104 / (2 * x) = y / 2" by (simp add: y_def)
  have lt: "\<lceil>2 ^ 104 / (2 * x)\<rceil> < \<lceil>y\<rceil>"
    using half by (simp only: e)
  have "0 < y" using y2 by simp
  then have "0 < \<lceil>y\<rceil>" by (simp add: less_ceiling_iff)
  with lt have "nat \<lceil>2 ^ 104 / (2 * x)\<rceil> < nat \<lceil>2 ^ 104 / x\<rceil>"
    unfolding y_def by (simp only: zless_nat_conj)
  then show "(2 * x, x) \<in> measure (\<lambda>x. if 2 ^ 53 \<le> x then nat \<lceil>x\<rceil> else nat \<lceil>2 ^ 104 / x\<rceil>)"
    using nb \<open>\<not> 2 ^ 53 \<le> x\<close> by simp
qed

declare fl64_pos.simps [simp del]

definition fl64 :: "real \<Rightarrow> real" where
  "fl64 x = (if x < 0 then - fl64_pos (- x) else fl64_pos x)"

subsection \<open>Tariff engine: \<^verbatim>\<open>calculateKwhToBill\<close>\<close>

text \<open>
  The \<^verbatim>\<open>for (const tier of TARIFF_TIERS)\<close> loop with its two mutable variables,
  \<^verbatim>\<open>remaining\<close> and \<^verbatim>\<open>totalBill\<close>, and its \<^verbatim>\<open>break\<close>.
\<close>

fun tier_loop :: "tier list \<Rightarrow> real \<Rightarrow> real \<Rightarrow> real" where
  "tier_loop [] remaining totalBill = totalBill"
| "tier_loop (t # ts) remaining totalBill =
     (let amountInTier = Math_min_bound remaining (limit t);
          totalBill' = (if amountInTier > 0 then totalBill + amountInTier * rate t
                        else totalBill);
          remaining' = (if amountInTier > 0 then remaining - amountInTier
                        else remaining)
      in if remaining' \<le> 0 then totalBill' else tier_loop ts remaining' totalBill')"

definition calculateKwhToBill :: "real \<Rightarrow> real" where
  "calculateKwhToBill kwh = tier_loop TARIFF_TIERS kwh 0"

subsection \<open>Component state\<close>

text \<open>
  The state of the \<^verbatim>\<open>SolarSimulator\<close> component that the calculations read: the
  audit (its \<^verbatim>\<open>phone\<close>, \<^verbatim>\<open>housePhase\<close> and \<^verbatim>\<open>roofType\<close> fields are never read by
  a calculation and are left out) and the strategy.
\<close>

record audit =
  monthlyKwh :: real
  futureEV :: bool
  futurePool :: bool
  futurePond :: bool

record component =
  audit :: audit
  dayUsagePercent :: real
  panelWattage :: real
  panelCount :: real
  hasBattery :: bool
  batteryUnits :: real

text \<open>
  The multiplier and its product with the usage are computed in doubles, since
  \<^verbatim>\<open>Math.round\<close> turns their rounding into a difference of a whole unit: each
  \<^verbatim>\<open>+=\<close> rounds its sum, and the literals \<^verbatim>\<open>0.3\<close>, \<^verbatim>\<open>0.2\<close> and \<^verbatim>\<open>0.15\<close> are
  the doubles nearest to them. \<open>monthlyKwh\<close> is taken to be a double.
\<close>

definition future_multiplier :: "audit \<Rightarrow> real" where
  "future_multiplier a =
     (let multiplier = 1;
          multiplier = (if futureEV a then fl64 (multiplier + fl64 0.3) else multiplier);
          multiplier = (if futurePool a then fl64 (multiplier + fl64 0.2) else multiplier);
          multiplier = (if futurePond a then fl64 (multiplier + fl64 0.15) else multiplier)
      in multiplier)"

definition adjustedMonthlyKwh :: "component \<Rightarrow> real" where
  "adjustedMonthlyKwh c =
     Math_round (fl64 (monthlyKwh (audit c) * future_multiplier (audit c)))"

definition currentKwhUsage :: "component \<Rightarrow> real" where
  "currentKwhUsage c = adjustedMonthlyKwh c"

definition batteryCapacity :: "component \<Rightarrow> real" where
  "batteryCapacity c = batteryUnits c * BATTERY_UNIT_KWH"

subsection \<open>Energy allocation engine: \<^verbatim>\<open>computeFormula\<close>\<close>

text \<open>The object \<^verbatim>\<open>computeFormula\<close> returns; its one-letter keys carry the prefix \<open>f_\<close>.\<close>

record formula =
  f_A :: real
  f_B :: real
  f_C :: real
  f_B1 :: real
  f_C1 :: real
  f_D :: real
  f_E :: real
  f_F :: real
  f_G :: real
  f_H :: real
  f_I :: real
  f_J :: real
  f_K :: real
  dailyTnbKwh :: real
  dailyTnbCost :: real
  dailyExportKwh :: real
  dailyStoredKwh :: real
  monthlyTnbCost :: real

text \<open>
  The three \<^verbatim>\<open>let\<close> variables \<^verbatim>\<open>dailyTnbKwh\<close>, \<^verbatim>\<open>dailyExportKwh\<close> and
  \<^verbatim>\<open>dailyStoredKwh\<close> start at 0 and are assigned in the branches; \<open>daily_flows\<close> is
  that \<^verbatim>\<open>if\<close> statement, returning the three in this order (a variable a branch
  does not assign keeps its 0).
\<close>

definition daily_flows :: "real \<Rightarrow> real \<Rightarrow> real \<Rightarrow> real \<Rightarrow> real \<Rightarrow> real \<Rightarrow> real \<times> real \<times> real" where
  "daily_flows B1 C1 G H J K =
     (if B1 > G then ((B1 - G) + C1, 0, 0)
      else
        let excess = G - B1 in
        if H = 0 then
          let exportKwh = excess;
              credit = excess * K * EXPORT_RATE_FACTOR;
              cost = max 0 ((C1 * K) - credit)
          in (cost / K, exportKwh, 0)
        else
          let storedKwh = min excess J;
              remainingExcess = max 0 (excess - J);
              exportKwh = (if remainingExcess > 0 then remainingExcess else 0);
              cost = max 0 ((max 0 (C1 - storedKwh) * K)
                            - (exportKwh * K * BATTERY_EXPORT_FACTOR))
          in (cost / K, exportKwh, storedKwh))"

definition computeFormula :: "component \<Rightarrow> formula" where
  "computeFormula c =
     (let A = currentKwhUsage c;
          B = (dayUsagePercent c / 100) * A;
          C = A - B;
          B1 = B / 30;
          C1 = C / 30;
          D = panelCount c;
          E = panelWattage c / 1000;
          F = SOLAR_YIELD_PER_KW;
          G = D * E * F;
          H = (if hasBattery c then batteryUnits c else 0);
          I = BATTERY_UNIT_KWH;
          J = H * I;
          K = TNB_RATE_PER_KWH;
          (tnbKwh, exportKwh, storedKwh) = daily_flows B1 C1 G H J K;
          tnbCost = tnbKwh * K;
          monthlyCost = tnbCost * 30
      in \<lparr>f_A = A, f_B = B, f_C = C, f_B1 = B1, f_C1 = C1, f_D = D, f_E = E, f_F = F,
          f_G = G, f_H = H, f_I = I, f_J = J, f_K = K,
          dailyTnbKwh = tnbKwh, dailyTnbCost = tnbCost, dailyExportKwh = exportKwh,
          dailyStoredKwh = storedKwh, monthlyTnbCost = monthlyCost\<rparr>)"

subsection \<open>Final report: \<^verbatim>\<open>calculateFinalReport\<close>\<close>

text \<open>
  \<^verbatim>\<open>currentStats\<close>. \<open>tankLevel\<close> is \<open>None\<close> where the language would hold a
  non-finite number.
\<close>

record stats =
  tankLevel :: "real option"
  gridExport :: real
  gridImport :: real
  solarGenerated :: real
  houseConsumed :: real
  wastedMoney :: real

record report =
  oldBill :: real
  newBill :: real
  monthlySavings :: real
  totalGenerated :: real
  totalUsed :: real
  totalExported :: real
  lossAmount :: real

definition calculateFinalReport :: "component \<Rightarrow> stats \<Rightarrow> report" where
  "calculateFinalReport c st =
     (let formula = computeFormula c;
          oldBill = f_A formula * f_K formula;
          newBill = monthlyTnbCost formula;
          potentialValueIfUsed = gridExport st * AVG_GRID_RATE;
          actualValueSold = gridExport st * NEM_EXPORT_RATE;
          lossAmount = potentialValueIfUsed - actualValueSold;
          monthlySavings = oldBill - newBill
      in \<lparr>oldBill = oldBill, newBill = newBill, monthlySavings = monthlySavings,
          totalGenerated = solarGenerated st,
          totalUsed = houseConsumed st - gridImport st,
          totalExported = gridExport st,
          lossAmount = lossAmount\<rparr>)"

subsection \<open>Simulation driver: \<^verbatim>\<open>runSimulation\<close>\<close>

text \<open>
  The variables of one run that the timer callback updates: \<^verbatim>\<open>day\<close>,
  \<^verbatim>\<open>currentStats\<close> and the progress it publishes.
\<close>

record sim =
  day :: real
  currentStats :: stats
  simProgress :: real

definition totalDays :: real where "totalDays = 30"

definition initial_sim :: sim where
  "initial_sim =
     \<lparr>day = 0,
      currentStats = \<lparr>tankLevel = Some 0, gridExport = 0, gridImport = 0,
                      solarGenerated = 0, houseConsumed = 0, wastedMoney = 0\<rparr>,
      simProgress = 0\<rparr>"

text \<open>The fill indicator a tick stores in \<^verbatim>\<open>currentStats.tankLevel\<close>.\<close>

definition tank_level :: "component \<Rightarrow> formula \<Rightarrow> real option" where
  "tank_level c formula =
     (if hasBattery c \<and> batteryCapacity c > 0
      then map_option (\<lambda>q. q * 100) (js_div (dailyStoredKwh formula) (batteryCapacity c))
      else Some 0)"

text \<open>One firing of the timer callback, up to the test that ends the run.\<close>

definition sim_tick :: "component \<Rightarrow> sim \<Rightarrow> sim" where
  "sim_tick c s =
     (let day' = day s + 0.5;
          progress = (day' / totalDays) * 100;
          formula = computeFormula c;
          dailySolar = f_G formula;
          dailyConsumption = f_A formula / 30;
          imported = dailyTnbKwh formula;
          exported = dailyExportKwh formula;
          st = currentStats s;
          st' = st\<lparr>solarGenerated := solarGenerated st + dailySolar / 2,
                   houseConsumed := houseConsumed st + dailyConsumption / 2,
                   gridExport := gridExport st + exported / 2,
                   gridImport := gridImport st + imported / 2,
                   tankLevel := tank_level c formula\<rparr>
      in \<lparr>day = day', currentStats = st', simProgress = progress\<rparr>)"

text \<open>
  The timer fires until the callback clears it, which it does once
  \<^verbatim>\<open>day >= totalDays\<close>.
\<close>

function sim_loop :: "component \<Rightarrow> sim \<Rightarrow> sim" where
  "sim_loop c s =
     (if day (sim_tick c s) \<ge> totalDays then sim_tick c s
      else sim_loop c (sim_tick c s))"
  by pat_completeness auto
termination
proof (relation "measure (\<lambda>(c, s). nat \<lceil>2 * (totalDays - day s)\<rceil>)")
  show "wf (measure (\<lambda>(c, s). nat \<lceil>2 * (totalDays - day s)\<rceil>))"
    by simp
next
  fix c :: component and s :: sim
  have day_sim_tick: "day (sim_tick c s) = day s + 1 / 2"
    by (simp add: sim_tick_def Let_def)
  assume "\<not> totalDays \<le> day (sim_tick c s)"
  then have "day s + 1 / 2 < totalDays"
    by (simp add: day_sim_tick)
  then have pos: "0 < \<lceil>2 * (totalDays - day s)\<rceil>"
    by simp
  have "2 * (totalDays - day (sim_tick c s)) = 2 * (totalDays - day s) - 1"
    by (simp add: day_sim_tick)
  then have "\<lceil>2 * (totalDays - day (sim_tick c s))\<rceil> = \<lceil>2 * (totalDays - day s)\<rceil> - 1"
    by (simp only: ceiling_diff_one)
  with pos show "((c, sim_tick c s), (c, s)) \<in> measure (\<lambda>(c, s). nat \<lceil>2 * (totalDays - day s)\<rceil>)"
    by simp
qed

text \<open>
  A run: the accumulator is reset, the timer runs to its end, and the report is derived
  from the accumulated statistics.
\<close>

definition runSimulation :: "component \<Rightarrow> sim \<times> report" where
  "runSimulation c =
     (let s = sim_loop c initial_sim
      in (s, calculateFinalReport c (currentStats s)))"

subsection \<open>Example configurations\<close>

text \<open>
  The component's initial state: 900 kWh a month, 60 percent of it by day, twelve panels
  of 615 W, no battery. The others change the number of panels or switch the battery on.
\<close>

definition scenario :: component where
  "scenario =
     \<lparr>audit = \<lparr>monthlyKwh = 900, futureEV = False, futurePool = False, futurePond = False\<rparr>,
      dayUsagePercent = 60, panelWattage = 615, panelCount = 12,
      hasBattery = False, batteryUnits = 1\<rparr>"

definition scenario_battery :: component where
  "scenario_battery = scenario\<lparr>hasBattery := True\<rparr>"

definition scenario_large :: component where
  "scenario_large = scenario\<lparr>panelCount := 40, hasBattery := True\<rparr>"

definition scenario_small :: component where
  "scenario_small = scenario\<lparr>panelCount := 6\<rparr>"

definition scenario_empty_battery :: component where
  "scenario_empty_battery = scenario\<lparr>hasBattery := True, batteryUnits := 0\<rparr>"




subsection \<open>The projected usage as the specification words it\<close>


section \<open>Properties\<close>

subsection \<open>Rounding to doubles\<close>


lemma rne_nonneg: "0 \<le> y \<Longrightarrow> 0 \<le> rne y"
  unfolding rne_def Let_def by (simp split: if_splits)

lemma fl64_pos_nonneg: "0 \<le> fl64_pos x"
proof (induction x rule: fl64_pos.induct)
  case (1 x)
  show ?case
  proof (cases "x \<le> 0")
    case True
    then show ?thesis by (subst fl64_pos.simps) simp
  next
    case pos: False
    show ?thesis
    proof (cases "2 ^ 53 \<le> x")
      case True
      then show ?thesis
        using pos "1.IH"(1) by (subst fl64_pos.simps) simp
    next
      case nb: False
      show ?thesis
      proof (cases "x < 2 ^ 52")
        case True
        then show ?thesis
          using pos nb "1.IH"(2) by (subst fl64_pos.simps) simp
      next
        case False
        have "0 \<le> rne x" using pos by (intro rne_nonneg) simp
        then show ?thesis
          using pos nb False by (subst fl64_pos.simps) simp
      qed
    qed
  qed
qed


lemma fl64_nonneg: "0 \<le> x \<Longrightarrow> 0 \<le> fl64 x"
  by (simp add: fl64_def fl64_pos_nonneg)


lemma fl64_literals:
  "fl64 (3 / 10) = 5404319552844595 / 18014398509481984"
  "fl64 (1 / 5) = 3602879701896397 / 18014398509481984"
  "fl64 (3 / 20) = 5404319552844595 / 36028797018963968"
  by (simp_all add: fl64_def fl64_pos.simps rne_def)

lemma fl64_900: "fl64 900 = 900"
  by (simp add: fl64_def fl64_pos.simps rne_def)

text \<open>The eight values the multiplier can take, and how far they are from the decimals.\<close>

lemma future_multiplier_values:
  "future_multiplier a =
     (if futureEV a then
        if futurePool a then
          if futurePond a then 3715469692580659 / 2251799813685248 else 3 / 2
        else
          if futurePond a then 6530219459687219 / 4503599627370496
          else 5854679515581645 / 4503599627370496
      else
        if futurePool a then
          if futurePond a then 6079859496950169 / 4503599627370496
          else 5404319552844595 / 4503599627370496
        else
          if futurePond a then 2589569785738035 / 2251799813685248 else 1)"
  by (simp add: future_multiplier_def Let_def fl64_literals)
    (simp add: fl64_def fl64_pos.simps rne_def)

lemma future_multiplier_bounds:
  "1 \<le> future_multiplier a" "future_multiplier a \<le> 2"
  by (simp_all add: future_multiplier_values)


subsection \<open>The fields of the formula object\<close>

lemma computeFormula_flows:
  "(dailyTnbKwh (computeFormula c), dailyExportKwh (computeFormula c),
    dailyStoredKwh (computeFormula c)) =
   daily_flows (f_B1 (computeFormula c)) (f_C1 (computeFormula c)) (f_G (computeFormula c))
     (f_H (computeFormula c)) (f_J (computeFormula c)) (f_K (computeFormula c))"
  by (simp add: computeFormula_def Let_def split: prod.split)

lemma computeFormula_costs:
  "dailyTnbCost (computeFormula c) = dailyTnbKwh (computeFormula c) * f_K (computeFormula c)"
  "monthlyTnbCost (computeFormula c) = dailyTnbCost (computeFormula c) * 30"
  by (simp_all add: computeFormula_def Let_def split: prod.split)

lemma computeFormula_inputs:
  "f_A (computeFormula c) = currentKwhUsage c"
  "f_B (computeFormula c) = (dayUsagePercent c / 100) * currentKwhUsage c"
  "f_C (computeFormula c) = f_A (computeFormula c) - f_B (computeFormula c)"
  "f_B1 (computeFormula c) = f_B (computeFormula c) / 30"
  "f_C1 (computeFormula c) = f_C (computeFormula c) / 30"
  "f_G (computeFormula c) = panelCount c * (panelWattage c / 1000) * SOLAR_YIELD_PER_KW"
  "f_H (computeFormula c) = (if hasBattery c then batteryUnits c else 0)"
  "f_J (computeFormula c) = f_H (computeFormula c) * BATTERY_UNIT_KWH"
  "f_K (computeFormula c) = TNB_RATE_PER_KWH"
  by (simp_all add: computeFormula_def Let_def split: prod.split)

lemmas scenario_eval =
  computeFormula_inputs scenario_def scenario_battery_def scenario_large_def scenario_small_def
  currentKwhUsage_def adjustedMonthlyKwh_def future_multiplier_def Math_round_def
  fl64_900 SOLAR_YIELD_PER_KW_def TNB_RATE_PER_KWH_def BATTERY_UNIT_KWH_def batteryCapacity_def

text \<open>The formula object of the initial configuration.\<close>

lemma scenario_fields:
  "f_A (computeFormula scenario) = 900"
  "f_B1 (computeFormula scenario) = 18"
  "f_C1 (computeFormula scenario) = 12"
  "f_G (computeFormula scenario) = 25.83"
  "f_K (computeFormula scenario) = 0.5"
  by (simp_all add: scenario_eval)

lemma scenario_allocation:
  "dailyTnbKwh (computeFormula scenario) = 6.519"
  "dailyExportKwh (computeFormula scenario) = 7.83"
  "dailyStoredKwh (computeFormula scenario) = 0"
  using computeFormula_flows [of scenario]
  by (simp_all add: scenario_eval daily_flows_def Let_def EXPORT_RATE_FACTOR_def)

subsection \<open>Allocation: solar covers the daytime load, no battery\<close>

text \<open>
  Claim C1. When the daily solar generation \<open>G\<close> is at least the daily daytime load
  \<open>B1\<close> and no battery is counted (\<open>H = 0\<close>, which is the test the code makes: the
  battery is switched off, or it has zero units), the whole excess \<open>G - B1\<close> is exported
  and the billed kWh-equivalent is \<open>max 0 (C1 * K - excess * K * 0.7) / K\<close>, the clamp
  being applied to the night cost less the credit.
\<close>

theorem no_battery_excess_exported:
  assumes "f_B1 (computeFormula c) \<le> f_G (computeFormula c)"
    and "f_H (computeFormula c) = 0"
  shows "dailyExportKwh (computeFormula c) = f_G (computeFormula c) - f_B1 (computeFormula c)
    \<and> dailyTnbKwh (computeFormula c) =
        max 0 (f_C1 (computeFormula c) * f_K (computeFormula c)
               - (f_G (computeFormula c) - f_B1 (computeFormula c)) * f_K (computeFormula c) * 0.7)
        / f_K (computeFormula c)"
  using assms computeFormula_flows [of c]
  by (simp add: daily_flows_def Let_def EXPORT_RATE_FACTOR_def)

theorem no_battery_excess_exported_witness:
  "f_B1 (computeFormula scenario) \<le> f_G (computeFormula scenario)
   \<and> f_H (computeFormula scenario) = 0
   \<and> dailyExportKwh (computeFormula scenario) = 7.83
   \<and> dailyTnbKwh (computeFormula scenario) = 6.519"
  using no_battery_excess_exported [of scenario]
  by (simp add: scenario_eval)

subsection \<open>Allocation: solar covers the daytime load, with a battery\<close>

text \<open>
  Claim C2. When \<open>G\<close> is at least \<open>B1\<close> and a battery is counted (\<open>H \<noteq> 0\<close>), the
  capacity \<open>J\<close> the formula uses is the component's battery capacity, the stored energy
  is the smaller of the excess and the capacity, the exported energy is what the excess
  leaves above the capacity (nothing when the capacity covers the excess, and then all of
  the excess is stored; otherwise the battery is filled exactly), and the daily cost is
  \<open>max 0 (max 0 (C1 - stored) * K - exported * K * 0.3)\<close>.
\<close>

theorem battery_stores_then_exports:
  assumes "f_B1 (computeFormula c) \<le> f_G (computeFormula c)"
    and "f_H (computeFormula c) \<noteq> 0"
  shows "f_J (computeFormula c) = batteryCapacity c
    \<and> dailyStoredKwh (computeFormula c) =
        min (f_G (computeFormula c) - f_B1 (computeFormula c)) (batteryCapacity c)
    \<and> dailyExportKwh (computeFormula c) =
        max 0 (f_G (computeFormula c) - f_B1 (computeFormula c) - batteryCapacity c)
    \<and> (if f_G (computeFormula c) - f_B1 (computeFormula c) \<le> batteryCapacity c
        then dailyExportKwh (computeFormula c) = 0
           \<and> dailyStoredKwh (computeFormula c) = f_G (computeFormula c) - f_B1 (computeFormula c)
        else dailyStoredKwh (computeFormula c) = batteryCapacity c
           \<and> dailyExportKwh (computeFormula c) =
               f_G (computeFormula c) - f_B1 (computeFormula c) - batteryCapacity c)
    \<and> dailyTnbCost (computeFormula c) =
        max 0 (max 0 (f_C1 (computeFormula c) - dailyStoredKwh (computeFormula c))
                 * f_K (computeFormula c)
               - dailyExportKwh (computeFormula c) * f_K (computeFormula c) * 0.3)"
proof -
  have J: "f_J (computeFormula c) = batteryCapacity c"
    using assms(2) by (simp add: computeFormula_inputs batteryCapacity_def split: if_splits)
  have K: "f_K (computeFormula c) \<noteq> 0"
    by (simp add: computeFormula_inputs TNB_RATE_PER_KWH_def)
  show ?thesis
    using assms computeFormula_flows [of c] K
    unfolding computeFormula_costs J [symmetric]
    by (auto simp: daily_flows_def Let_def BATTERY_EXPORT_FACTOR_def max_def min_def)
qed

theorem battery_stores_then_exports_witness:
  "f_B1 (computeFormula scenario_battery) \<le> f_G (computeFormula scenario_battery)
   \<and> f_H (computeFormula scenario_battery) \<noteq> 0
   \<and> dailyStoredKwh (computeFormula scenario_battery) = 7.83
   \<and> dailyExportKwh (computeFormula scenario_battery) = 0
   \<and> dailyTnbCost (computeFormula scenario_battery) = 2.085
   \<and> f_B1 (computeFormula scenario_large) \<le> f_G (computeFormula scenario_large)
   \<and> f_H (computeFormula scenario_large) \<noteq> 0
   \<and> dailyStoredKwh (computeFormula scenario_large) = 10
   \<and> dailyExportKwh (computeFormula scenario_large) = 58.1
   \<and> dailyTnbCost (computeFormula scenario_large) = 0"
  using battery_stores_then_exports [of scenario_battery]
    battery_stores_then_exports [of scenario_large]
  by (simp add: scenario_eval)

subsection \<open>Allocation: solar short of the daytime load\<close>

text \<open>
  Claim C3. When the daily daytime load \<open>B1\<close> strictly exceeds the daily solar
  generation \<open>G\<close>, the billed kWh are the daytime shortfall plus the whole night load,
  \<open>(B1 - G) + C1\<close>, their cost is that quantity at the flat rate, and nothing is
  exported or stored.
\<close>

theorem shortfall_billed_flat:
  assumes "f_G (computeFormula c) < f_B1 (computeFormula c)"
  shows "dailyTnbKwh (computeFormula c) =
           (f_B1 (computeFormula c) - f_G (computeFormula c)) + f_C1 (computeFormula c)
    \<and> dailyTnbCost (computeFormula c) = dailyTnbKwh (computeFormula c) * TNB_RATE_PER_KWH
    \<and> dailyExportKwh (computeFormula c) = 0
    \<and> dailyStoredKwh (computeFormula c) = 0"
  using assms computeFormula_flows [of c]
  by (simp add: daily_flows_def computeFormula_costs computeFormula_inputs(9))

theorem shortfall_billed_flat_witness:
  "f_G (computeFormula scenario_small) < f_B1 (computeFormula scenario_small)
   \<and> dailyTnbKwh (computeFormula scenario_small) = 17.085
   \<and> dailyTnbCost (computeFormula scenario_small) = 8.5425
   \<and> dailyExportKwh (computeFormula scenario_small) = 0
   \<and> dailyStoredKwh (computeFormula scenario_small) = 0"
  using shortfall_billed_flat [of scenario_small]
  by (simp add: scenario_eval)

subsection \<open>Tariff engine\<close>

text \<open>
  Claim C5. The tiered bill of 0 kWh is 0, and at the tier boundaries the bill is the sum
  of the full blocks below it: 200 kWh cost \<open>200 \<times> 0.218 = 43.6\<close>, 300 kWh cost
  \<open>43.6 + 100 \<times> 0.334\<close>, and so on through the blocks of 300 kWh at 0.516 and 0.546
  and the open block at 0.571.
\<close>

theorem calculateKwhToBill_boundaries:
  "calculateKwhToBill 0 = 0
   \<and> calculateKwhToBill 200 = 200 * 0.218
   \<and> calculateKwhToBill 200 = 43.6
   \<and> calculateKwhToBill 300 = 43.6 + 100 * 0.334
   \<and> calculateKwhToBill 600 = 43.6 + 100 * 0.334 + 300 * 0.516
   \<and> calculateKwhToBill 900 = 43.6 + 100 * 0.334 + 300 * 0.516 + 300 * 0.546
   \<and> calculateKwhToBill 1000 = 43.6 + 100 * 0.334 + 300 * 0.516 + 300 * 0.546 + 100 * 0.571"
  by (simp add: calculateKwhToBill_def TARIFF_TIERS_def Let_def)

text \<open>
  The loop never lowers the bill it has accumulated, provided no rate is negative.
\<close>

lemma tier_loop_ge:
  "\<forall>t\<in>set ts. 0 \<le> rate t \<Longrightarrow> b \<le> tier_loop ts r b"
proof (induction ts arbitrary: r b)
  case Nil
  then show ?case by simp
next
  case (Cons t ts)
  let ?a = "Math_min_bound r (limit t)"
  have rt: "0 \<le> rate t" and rest: "\<forall>u\<in>set ts. 0 \<le> rate u"
    using Cons.prems by simp_all
  show ?case
  proof (cases "?a > 0")
    case True
    then have "0 \<le> ?a * rate t" using rt by simp
    moreover have "b + ?a * rate t \<le> tier_loop ts (r - ?a) (b + ?a * rate t)"
      using Cons.IH [OF rest] .
    ultimately show ?thesis using True by (simp add: Let_def)
  next
    case False
    then show ?thesis using Cons.IH [OF rest, of b r] by (simp add: Let_def)
  qed
qed

text \<open>
  One tier takes \<open>max 0 (min remaining limit)\<close> out of what remains; both that amount
  and what is left grow with what remained.
\<close>

lemma tier_loop_Cons:
  "tier_loop (t # ts) r b =
     (if r - max 0 (Math_min_bound r (limit t)) \<le> 0
      then b + max 0 (Math_min_bound r (limit t)) * rate t
      else tier_loop ts (r - max 0 (Math_min_bound r (limit t)))
             (b + max 0 (Math_min_bound r (limit t)) * rate t))"
  by (simp add: Let_def max_def)

lemma tier_amount_mono:
  "r \<le> r' \<Longrightarrow> max 0 (Math_min_bound r l) \<le> max 0 (Math_min_bound r' l)"
  by (cases l) auto

lemma tier_rest_mono:
  "r \<le> r' \<Longrightarrow> r - max 0 (Math_min_bound r l) \<le> r' - max 0 (Math_min_bound r' l)"
  by (cases l) (auto simp: max_def min_def)

lemma tier_loop_mono:
  "\<forall>t\<in>set ts. 0 \<le> rate t \<Longrightarrow> r \<le> r' \<Longrightarrow> b \<le> b' \<Longrightarrow>
   tier_loop ts r b \<le> tier_loop ts r' b'"
proof (induction ts arbitrary: r r' b b')
  case Nil
  then show ?case by simp
next
  case (Cons t ts)
  have rt: "0 \<le> rate t" and rest: "\<forall>u\<in>set ts. 0 \<le> rate u"
    using Cons.prems(1) by simp_all
  let ?a = "max 0 (Math_min_bound r (limit t))"
  let ?a' = "max 0 (Math_min_bound r' (limit t))"
  have r1: "r - ?a \<le> r' - ?a'"
    using Cons.prems(2) by (rule tier_rest_mono)
  have "?a * rate t \<le> ?a' * rate t"
    using tier_amount_mono [OF Cons.prems(2)] rt by (rule mult_right_mono)
  then have b1: "b + ?a * rate t \<le> b' + ?a' * rate t"
    using Cons.prems(3) by simp
  consider (stop) "r' - ?a' \<le> 0" | (late) "r - ?a \<le> 0" "0 < r' - ?a'" | (go) "0 < r - ?a"
    by linarith
  then show ?case
  proof cases
    case stop
    then have "r - ?a \<le> 0" using r1 by linarith
    then show ?thesis
      using stop b1 by (simp only: tier_loop_Cons if_True)
  next
    case late
    have "b' + ?a' * rate t \<le> tier_loop ts (r' - ?a') (b' + ?a' * rate t)"
      using rest by (rule tier_loop_ge)
    then have "b + ?a * rate t \<le> tier_loop ts (r' - ?a') (b' + ?a' * rate t)"
      using b1 by linarith
    moreover have "\<not> r' - ?a' \<le> 0" using late(2) by linarith
    ultimately show ?thesis
      using late(1) by (simp only: tier_loop_Cons if_True if_False)
  next
    case go
    then have g: "\<not> r - ?a \<le> 0" "\<not> r' - ?a' \<le> 0"
      using r1 by linarith+
    show ?thesis
      using Cons.IH [OF rest r1 b1] g by (simp only: tier_loop_Cons if_False)
  qed
qed

lemma TARIFF_TIERS_rates: "\<forall>t\<in>set TARIFF_TIERS. 0 \<le> rate t"
  by (simp add: TARIFF_TIERS_def)

text \<open>
  Claim C6. The tiered bill is monotonically non-decreasing: for non-negative inputs
  \<open>x \<le> y\<close>, the bill of \<open>x\<close> is at most the bill of \<open>y\<close>.
\<close>

theorem calculateKwhToBill_mono:
  "0 \<le> x \<Longrightarrow> x \<le> y \<Longrightarrow> calculateKwhToBill x \<le> calculateKwhToBill y"
  unfolding calculateKwhToBill_def
  by (rule tier_loop_mono [OF TARIFF_TIERS_rates]) simp_all

theorem calculateKwhToBill_mono_witness:
  "(0::real) \<le> 250 \<and> (250::real) \<le> 700 \<and> calculateKwhToBill 250 \<le> calculateKwhToBill 700
   \<and> calculateKwhToBill 250 = 60.3 \<and> calculateKwhToBill 700 = 286.4"
  using calculateKwhToBill_mono [of 250 700]
  by (simp add: calculateKwhToBill_def TARIFF_TIERS_def Let_def)

subsection \<open>Allocation: bounds on the outputs\<close>

lemma Math_round_nonneg: "0 \<le> x \<Longrightarrow> 0 \<le> Math_round x"
  unfolding Math_round_def by simp

lemma currentKwhUsage_nonneg:
  assumes "0 \<le> monthlyKwh (audit c)"
  shows "0 \<le> currentKwhUsage c"
proof -
  have "0 \<le> monthlyKwh (audit c) * future_multiplier (audit c)"
    using assms future_multiplier_bounds(1) [of "audit c"] by simp
  then have "0 \<le> fl64 (monthlyKwh (audit c) * future_multiplier (audit c))"
    by (rule fl64_nonneg)
  then show ?thesis
    unfolding currentKwhUsage_def adjustedMonthlyKwh_def by (rule Math_round_nonneg)
qed

lemma night_load_nonneg:
  assumes "0 \<le> monthlyKwh (audit c)" and "dayUsagePercent c \<le> 100"
  shows "0 \<le> f_C1 (computeFormula c)"
proof -
  have "0 \<le> (1 - dayUsagePercent c / 100) * currentKwhUsage c"
    using assms(2) currentKwhUsage_nonneg [OF assms(1)] by simp
  then show ?thesis
    by (simp add: computeFormula_inputs algebra_simps)
qed

text \<open>
  Claim C10. For a non-negative monthly usage, a day fraction of at most 100 percent and a
  non-negative number of battery units (the flat rate is the positive constant 0.5, and
  the signs of the panel count, of the panel wattage and of the day fraction are not
  needed), the billed kWh and the exported kWh are non-negative, the stored kWh lie
  between 0 and the battery capacity, and in the battery branch energy is exported only
  when the stored kWh equal the full capacity.
\<close>

theorem allocation_bounds:
  assumes "0 \<le> monthlyKwh (audit c)" and "dayUsagePercent c \<le> 100"
    and "0 \<le> batteryUnits c"
  shows "0 \<le> dailyTnbKwh (computeFormula c)
    \<and> 0 \<le> dailyExportKwh (computeFormula c)
    \<and> 0 \<le> dailyStoredKwh (computeFormula c)
    \<and> dailyStoredKwh (computeFormula c) \<le> f_J (computeFormula c)
    \<and> dailyStoredKwh (computeFormula c) \<le> batteryCapacity c
    \<and> (f_H (computeFormula c) \<noteq> 0 \<and> 0 < dailyExportKwh (computeFormula c) \<longrightarrow>
         dailyStoredKwh (computeFormula c) = batteryCapacity c)"
proof -
  have C1: "0 \<le> f_C1 (computeFormula c)"
    using assms(1,2) by (rule night_load_nonneg)
  have K: "f_K (computeFormula c) = 1 / 2"
    by (simp add: computeFormula_inputs TNB_RATE_PER_KWH_def)
  have J: "0 \<le> f_J (computeFormula c)" "f_J (computeFormula c) \<le> batteryCapacity c"
    "f_H (computeFormula c) \<noteq> 0 \<Longrightarrow> f_J (computeFormula c) = batteryCapacity c"
    using assms(3)
    by (simp_all add: computeFormula_inputs batteryCapacity_def BATTERY_UNIT_KWH_def
        split: if_splits)
  show ?thesis
    using computeFormula_flows [of c] C1 J unfolding K
    by (auto simp: daily_flows_def Let_def split: if_splits)
qed

theorem allocation_bounds_witness:
  "0 \<le> monthlyKwh (audit scenario_large) \<and> dayUsagePercent scenario_large \<le> 100
   \<and> 0 \<le> batteryUnits scenario_large
   \<and> f_H (computeFormula scenario_large) \<noteq> 0
   \<and> 0 < dailyExportKwh (computeFormula scenario_large)
   \<and> dailyStoredKwh (computeFormula scenario_large) = batteryCapacity scenario_large
   \<and> batteryCapacity scenario_large = 10
   \<and> 0 \<le> dailyTnbKwh (computeFormula scenario_large)"
proof -
  have h: "0 \<le> monthlyKwh (audit scenario_large)" "dayUsagePercent scenario_large \<le> 100"
    "0 \<le> batteryUnits scenario_large"
    by (simp_all add: scenario_large_def scenario_def)
  have e: "dailyExportKwh (computeFormula scenario_large) = 58.1"
    using computeFormula_flows [of scenario_large]
    by (simp add: scenario_eval daily_flows_def Let_def)
  have H: "f_H (computeFormula scenario_large) \<noteq> 0"
    by (simp add: scenario_eval)
  have cap: "batteryCapacity scenario_large = 10"
    by (simp add: scenario_eval)
  show ?thesis
    using allocation_bounds [OF h] h e H cap by simp
qed

subsection \<open>Simulation driver\<close>

text \<open>A run is sixty ticks, each adding half a day of the formula's quantities.\<close>

lemma day_sim_tick: "day (sim_tick c s) = day s + 1 / 2"
  by (simp add: sim_tick_def Let_def)

lemma sim_loop_funpow:
  "day s = totalDays - (real n + 1) / 2 \<Longrightarrow> sim_loop c s = (sim_tick c ^^ Suc n) s"
proof (induction n arbitrary: s)
  case 0
  then have "day (sim_tick c s) = totalDays"
    by (simp add: day_sim_tick)
  then show ?case
    by (subst sim_loop.simps) simp
next
  case (Suc n)
  have d: "day (sim_tick c s) = totalDays - (real n + 1) / 2"
    using Suc.prems by (simp add: day_sim_tick field_simps)
  then have "\<not> totalDays \<le> day (sim_tick c s)"
    by simp
  then have "sim_loop c s = sim_loop c (sim_tick c s)"
    by (subst sim_loop.simps) simp
  also have "\<dots> = (sim_tick c ^^ Suc n) (sim_tick c s)"
    using d by (rule Suc.IH)
  also have "\<dots> = (sim_tick c ^^ Suc (Suc n)) s"
    by (simp only: funpow_Suc_right o_apply)
  finally show ?case .
qed

lemma sim_loop_initial: "sim_loop c initial_sim = (sim_tick c ^^ 60) initial_sim"
proof -
  have "day initial_sim = totalDays - (real 59 + 1) / 2"
    by (simp add: initial_sim_def totalDays_def)
  then have "sim_loop c initial_sim = (sim_tick c ^^ Suc 59) initial_sim"
    by (rule sim_loop_funpow)
  moreover have "Suc 59 = 60" by simp
  ultimately show ?thesis by (simp only:)
qed

lemma funpow_sim_tick:
  "day ((sim_tick c ^^ n) s) = day s + real n / 2"
  "gridExport (currentStats ((sim_tick c ^^ n) s)) =
     gridExport (currentStats s) + real n * (dailyExportKwh (computeFormula c) / 2)"
  "gridImport (currentStats ((sim_tick c ^^ n) s)) =
     gridImport (currentStats s) + real n * (dailyTnbKwh (computeFormula c) / 2)"
  "solarGenerated (currentStats ((sim_tick c ^^ n) s)) =
     solarGenerated (currentStats s) + real n * (f_G (computeFormula c) / 2)"
  "houseConsumed (currentStats ((sim_tick c ^^ n) s)) =
     houseConsumed (currentStats s) + real n * (f_A (computeFormula c) / 30 / 2)"
  by (induction n) (simp_all add: sim_tick_def Let_def algebra_simps)

lemma runSimulation_totals:
  "day (fst (runSimulation c)) = 30"
  "gridExport (currentStats (fst (runSimulation c))) = 30 * dailyExportKwh (computeFormula c)"
  "gridImport (currentStats (fst (runSimulation c))) = 30 * dailyTnbKwh (computeFormula c)"
  "solarGenerated (currentStats (fst (runSimulation c))) = 30 * f_G (computeFormula c)"
  "houseConsumed (currentStats (fst (runSimulation c))) = f_A (computeFormula c)"
proof -
  have run: "fst (runSimulation c) = (sim_tick c ^^ 60) initial_sim"
    by (simp only: runSimulation_def Let_def fst_conv sim_loop_initial)
  show "day (fst (runSimulation c)) = 30"
    unfolding run funpow_sim_tick by (simp add: initial_sim_def)
  show "gridExport (currentStats (fst (runSimulation c))) = 30 * dailyExportKwh (computeFormula c)"
    unfolding run funpow_sim_tick by (simp add: initial_sim_def)
  show "gridImport (currentStats (fst (runSimulation c))) = 30 * dailyTnbKwh (computeFormula c)"
    unfolding run funpow_sim_tick by (simp add: initial_sim_def)
  show "solarGenerated (currentStats (fst (runSimulation c))) = 30 * f_G (computeFormula c)"
    unfolding run funpow_sim_tick by (simp add: initial_sim_def)
  show "houseConsumed (currentStats (fst (runSimulation c))) = f_A (computeFormula c)"
    unfolding run funpow_sim_tick by (simp add: initial_sim_def)
qed

lemma runSimulation_report:
  "snd (runSimulation c) = calculateFinalReport c (currentStats (fst (runSimulation c)))"
  by (simp only: runSimulation_def Let_def fst_conv snd_conv)

lemma calculateFinalReport_fields:
  "oldBill (calculateFinalReport c st) = f_A (computeFormula c) * f_K (computeFormula c)"
  "newBill (calculateFinalReport c st) = monthlyTnbCost (computeFormula c)"
  "monthlySavings (calculateFinalReport c st) =
     oldBill (calculateFinalReport c st) - newBill (calculateFinalReport c st)"
  "totalGenerated (calculateFinalReport c st) = solarGenerated st"
  "totalUsed (calculateFinalReport c st) = houseConsumed st - gridImport st"
  "totalExported (calculateFinalReport c st) = gridExport st"
  "lossAmount (calculateFinalReport c st) =
     gridExport st * AVG_GRID_RATE - gridExport st * NEM_EXPORT_RATE"
  by (simp_all add: calculateFinalReport_def Let_def)

text \<open>
  Claim C8. On every tick the fill indicator is \<open>stored / batteryCapacity \<times> 100\<close>, a
  finite number, and it is 0 when the battery is switched off or its capacity is zero;
  the division is never made with a zero capacity. The number of battery units is taken
  non-negative.
\<close>

theorem tank_level_guarded:
  assumes "0 \<le> batteryUnits c"
  shows "tankLevel (currentStats (sim_tick c s)) =
     (if hasBattery c \<and> batteryCapacity c \<noteq> 0
      then Some (dailyStoredKwh (computeFormula c) / batteryCapacity c * 100)
      else Some 0)"
proof -
  have "0 \<le> batteryCapacity c"
    using assms by (simp add: batteryCapacity_def BATTERY_UNIT_KWH_def)
  then show ?thesis
    by (auto simp: sim_tick_def Let_def tank_level_def js_div_def)
qed

theorem tank_level_guarded_witness:
  "0 \<le> batteryUnits scenario_battery
   \<and> tankLevel (currentStats (sim_tick scenario_battery initial_sim)) = Some 78.3
   \<and> 0 \<le> batteryUnits scenario
   \<and> tankLevel (currentStats (sim_tick scenario initial_sim)) = Some 0
   \<and> 0 \<le> batteryUnits scenario_empty_battery
   \<and> batteryCapacity scenario_empty_battery = 0
   \<and> tankLevel (currentStats (sim_tick scenario_empty_battery initial_sim)) = Some 0"
proof -
  have s: "dailyStoredKwh (computeFormula scenario_battery) = 7.83"
    using computeFormula_flows [of scenario_battery]
    by (simp add: scenario_eval daily_flows_def Let_def)
  have b: "hasBattery scenario_battery" "batteryCapacity scenario_battery = 10"
    "0 \<le> batteryUnits scenario_battery"
    by (simp_all add: scenario_eval)
  have n: "\<not> hasBattery scenario" "0 \<le> batteryUnits scenario"
    by (simp_all add: scenario_def)
  have z: "batteryCapacity scenario_empty_battery = 0" "0 \<le> batteryUnits scenario_empty_battery"
    by (simp_all add: scenario_empty_battery_def batteryCapacity_def)
  show ?thesis
    using tank_level_guarded [OF b(3), of initial_sim] tank_level_guarded [OF n(2), of initial_sim]
      tank_level_guarded [OF z(2), of initial_sim] s b n z
    by simp
qed

subsection \<open>Final report\<close>

text \<open>
  Claim C7. For an accumulator whose exported kWh are non-negative, the lost value of the
  report, \<open>exported \<times> 0.45 - exported \<times> 0.24\<close>, is non-negative.
\<close>

theorem lossAmount_nonneg:
  assumes "0 \<le> gridExport st"
  shows "lossAmount (calculateFinalReport c st) = gridExport st * 0.45 - gridExport st * 0.24
    \<and> 0 \<le> lossAmount (calculateFinalReport c st)"
  using assms
  by (simp add: calculateFinalReport_fields AVG_GRID_RATE_def NEM_EXPORT_RATE_def)

theorem lossAmount_nonneg_witness:
  "0 \<le> gridExport (currentStats (fst (runSimulation scenario)))
   \<and> gridExport (currentStats (fst (runSimulation scenario))) = 234.9
   \<and> lossAmount (snd (runSimulation scenario)) = 49.329
   \<and> 0 \<le> lossAmount (snd (runSimulation scenario))"
  using lossAmount_nonneg [of "currentStats (fst (runSimulation scenario))" scenario]
  by (simp add: runSimulation_report runSimulation_totals scenario_allocation)

subsection \<open>The end-to-end scenario\<close>

text \<open>
  Claim C4, as the specification states it: for 900 kWh a month, 60 percent by day,
  twelve panels of 615 W and no battery, a daily solar generation of 25.83 kWh, a daily
  export of 7.83 kWh, a monthly grid cost of 97.86, an old bill of 450 and monthly savings
  of about 352.14. The monthly cost and the savings are not those, even to the nearest
  0.05.
\<close>

theorem scenario_monthly_cost_counterexample:
  "\<not> (f_G (computeFormula scenario) = 25.83
      \<and> dailyExportKwh (computeFormula scenario) = 7.83
      \<and> \<bar>monthlyTnbCost (computeFormula scenario) - 97.86\<bar> \<le> 0.05
      \<and> oldBill (snd (runSimulation scenario)) = 450
      \<and> \<bar>monthlySavings (snd (runSimulation scenario)) - 352.14\<bar> \<le> 0.05)"
  by (simp add: runSimulation_report calculateFinalReport_fields computeFormula_costs
      scenario_allocation scenario_fields)

text \<open>
  Claim C4, amended: the daily solar generation is 25.83 kWh, the daily export 7.83 kWh,
  the daily cost 3.2595 and the monthly grid cost 97.785; the report of the run has an
  old bill of 450 and monthly savings of 352.215.
\<close>

theorem scenario_end_to_end:
  "f_G (computeFormula scenario) = 25.83
   \<and> f_B1 (computeFormula scenario) = 18
   \<and> f_C1 (computeFormula scenario) = 12
   \<and> dailyExportKwh (computeFormula scenario) = 7.83
   \<and> dailyTnbKwh (computeFormula scenario) = 6.519
   \<and> dailyTnbCost (computeFormula scenario) = 3.2595
   \<and> monthlyTnbCost (computeFormula scenario) = 97.785
   \<and> oldBill (snd (runSimulation scenario)) = 450
   \<and> newBill (snd (runSimulation scenario)) = 97.785
   \<and> monthlySavings (snd (runSimulation scenario)) = 352.215"
  by (simp add: runSimulation_report calculateFinalReport_fields computeFormula_costs
      scenario_allocation scenario_fields)

subsection \<open>Projected monthly usage\<close>






end
